theory Spec2Isabelle
  imports Complex_Main "HOL-Library.Product_Lexorder" "HOL-Library.Sublist"
    "HOL-Library.Multiset" "HOL-Library.AList"
begin

section \<open>ERA5 wind analysis (labs/lab3/lab3_era5_analysis.py)\<close>

text \<open>
  The script loads a CSV file into a pandas DataFrame indexed by a parsed timestamp,
  drops incomplete rows, derives the wind speed and aggregates it by month, season, hour
  and day. Floating-point columns are modelled as \<open>real option\<close>: \<open>None\<close> is NaN (a
  missing value), \<open>Some x\<close> a number, with the arithmetic of the reals. A timestamp that
  failed to parse (NaT) is \<open>None\<close> as well.
\<close>

subsection \<open>Season of a month\<close>

text \<open>
  \<^verbatim>\<open>
  def get_season(month: int) -> int:
      if month in [12, 1, 2]: return 1
      elif month in [3, 4, 5]: return 2
      elif month in [6, 7, 8]: return 3
      else: return 4
  \<close>
\<close>

definition get_season :: "int \<Rightarrow> int" where
  "get_season month =
     (if month \<in> set [12, 1, 2] then 1
      else if month \<in> set [3, 4, 5] then 2
      else if month \<in> set [6, 7, 8] then 3
      else 4)"

text \<open>\<^verbatim>\<open>season_labels = {1: 'Winter', 2: 'Spring', 3: 'Summer', 4: 'Autumn'}\<close>\<close>

definition season_labels :: "int \<rightharpoonup> string" where
  "season_labels = [1 \<mapsto> ''Winter'', 2 \<mapsto> ''Spring'', 3 \<mapsto> ''Summer'', 4 \<mapsto> ''Autumn'']"

subsection \<open>Timestamps and rows\<close>

text \<open>
  A parsed timestamp with the civil fields the script reads (\<open>index.month\<close>,
  \<open>index.hour\<close>, and the date for the daily resample). Timestamps are ordered as the
  tuple of their fields, which is the chronological order.
\<close>

record datetime =
  year :: int
  month :: int
  day :: int
  hour :: int
  minute :: int
  second :: int

definition ts_key :: "datetime \<Rightarrow> int \<times> int \<times> int \<times> int \<times> int \<times> int" where
  "ts_key t = (year t, month t, day t, hour t, minute t, second t)"

definition is_leap :: "int \<Rightarrow> bool" where
  "is_leap y = (y mod 4 = 0 \<and> (y mod 100 \<noteq> 0 \<or> y mod 400 = 0))"

definition days_in_month :: "int \<Rightarrow> int \<Rightarrow> int" where
  "days_in_month y m =
     (if m = 2 then (if is_leap y then 29 else 28)
      else if m \<in> set [4, 6, 9, 11] then 30 else 31)"

definition valid_datetime :: "datetime \<Rightarrow> bool" where
  "valid_datetime t =
     (1 \<le> month t \<and> month t \<le> 12 \<and> 1 \<le> day t \<and> day t \<le> days_in_month (year t) (month t)
      \<and> 0 \<le> hour t \<and> hour t < 24 \<and> 0 \<le> minute t \<and> minute t < 60
      \<and> 0 \<le> second t \<and> second t < 60)"

text \<open>
  One row of the DataFrame after \<open>set_index('timestamp')\<close>: the index entry and the data
  columns. The script names two columns, \<open>u10m\<close> and \<open>v10m\<close>; the file may hold more
  numeric columns (\<open>others\<close>), which \<open>dropna\<close> and the daily mean also see.
\<close>

record row =
  timestamp :: "datetime option"
  u10m :: "real option"
  v10m :: "real option"
  others :: "real option list"

type_synonym dataframe = "row list"

subsection \<open>Cleaning: \<open>df.dropna(inplace=True)\<close>\<close>

text \<open>
  \<open>DataFrame.dropna()\<close> with its defaults (\<open>axis=0\<close>, \<open>how='any'\<close>) removes the rows
  that hold a missing value in some column. The index is not a column: after
  \<open>set_index('timestamp')\<close> a NaT index entry is not looked at.
\<close>

definition complete :: "row \<Rightarrow> bool" where
  "complete r = (u10m r \<noteq> None \<and> v10m r \<noteq> None \<and> list_all (\<lambda>c. c \<noteq> None) (others r))"

definition dropna :: "dataframe \<Rightarrow> dataframe" where
  "dropna df = filter complete df"

subsection \<open>Wind speed\<close>

text \<open>
  \<^verbatim>\<open>
  def calculate_wind_speed(u: pd.Series, v: pd.Series) -> pd.Series:
      return np.sqrt(u**2 + v**2)
  \<close>
  Series arithmetic is elementwise (both series come from the same DataFrame, so they
  share their index) and NaN propagates.
\<close>

definition series_pow2 :: "real option list \<Rightarrow> real option list" where
  "series_pow2 s = map (map_option (\<lambda>x. x ^ 2)) s"

definition series_add :: "real option list \<Rightarrow> real option list \<Rightarrow> real option list" where
  "series_add s t =
     map2 (\<lambda>a b. case (a, b) of (Some x, Some y) \<Rightarrow> Some (x + y) | _ \<Rightarrow> None) s t"

definition series_sqrt :: "real option list \<Rightarrow> real option list" where
  "series_sqrt s = map (map_option sqrt) s"

definition calculate_wind_speed :: "real option list \<Rightarrow> real option list \<Rightarrow> real option list" where
  "calculate_wind_speed u v = series_sqrt (series_add (series_pow2 u) (series_pow2 v))"

subsection \<open>Loading: \<open>load_era5_data\<close>\<close>

text \<open>
  \<^verbatim>\<open>
  def load_era5_data(file_path: str) -> pd.DataFrame:
      df = pd.read_csv(file_path)
      df['timestamp'] = pd.to_datetime(df['timestamp'], errors='coerce')
      df.set_index('timestamp', inplace=True)
      df.sort_index(inplace=True)
      return df
  \<close>
  The file system maps a path to the table \<open>read_csv\<close> makes of the file: the header
  and the records, whose timestamp cell is still text (\<open>None\<close> for an empty cell).
  \<open>read_csv\<close> raises \<open>FileNotFoundError\<close> for a path with no file, and
  \<open>df['timestamp']\<close> raises \<open>KeyError\<close> when the header has no such column; the
  records are read only after that check.
\<close>

datatype error = FileNotFoundError string | KeyError string

record csv_record =
  timestamp_text :: "string option"
  u10m_cell :: "real option"
  v10m_cell :: "real option"
  other_cells :: "real option list"

record csv =
  header :: "string list"
  records :: "csv_record list"

definition BERLIN_FILE :: string where
  "BERLIN_FILE = ''../../datasets/berlin_era5_wind_20241231_20241231.csv''"

definition MUNICH_FILE :: string where
  "MUNICH_FILE = ''../../datasets/munich_era5_wind_20241231_20241231.csv''"

definition read_csv :: "(string \<rightharpoonup> csv) \<Rightarrow> string \<Rightarrow> error + csv" where
  "read_csv fs file_path =
     (case fs file_path of None \<Rightarrow> Inl (FileNotFoundError file_path) | Some f \<Rightarrow> Inr f)"

text \<open>
  \<open>pd.to_datetime(..., errors='coerce')\<close>: the parser of one cell is a parameter
  \<open>parse\<close>; a cell that is empty or that the parser rejects becomes NaT, nothing is
  raised.
\<close>

definition to_datetime_coerce :: "(string \<Rightarrow> datetime option) \<Rightarrow> string option \<Rightarrow> datetime option" where
  "to_datetime_coerce parse cell = (case cell of None \<Rightarrow> None | Some s \<Rightarrow> parse s)"

definition set_index :: "(string \<Rightarrow> datetime option) \<Rightarrow> csv_record \<Rightarrow> row" where
  "set_index parse c =
     \<lparr>timestamp = to_datetime_coerce parse (timestamp_text c),
      u10m = u10m_cell c, v10m = v10m_cell c, others = other_cells c\<rparr>"

text \<open>
  \<open>df.sort_index()\<close> with its defaults: ascending, missing index entries last
  (\<open>na_position='last'\<close>). The rows with a timestamp are sorted by it and the NaT rows
  follow. The default \<open>kind='quicksort'\<close> does not promise an order among rows with
  equal timestamps; the model keeps them in their order of arrival.
\<close>

definition sort_index :: "dataframe \<Rightarrow> dataframe" where
  "sort_index df =
     sort_key (\<lambda>r. ts_key (the (timestamp r))) (filter (\<lambda>r. timestamp r \<noteq> None) df)
       @ filter (\<lambda>r. timestamp r = None) df"

definition load_era5_data ::
    "(string \<Rightarrow> datetime option) \<Rightarrow> (string \<rightharpoonup> csv) \<Rightarrow> string \<Rightarrow> error + dataframe" where
  "load_era5_data parse fs file_path =
     (case read_csv fs file_path of
        Inl e \<Rightarrow> Inl e
      | Inr f \<Rightarrow>
          if ''timestamp'' \<notin> set (header f) then Inl (KeyError ''timestamp'')
          else Inr (sort_index (map (set_index parse) (records f))))"

text \<open>
  A parser for the format the docstring fixes, \<open>YYYY-MM-DD HH:MM:SS\<close>, used where a
  concrete parser is needed. It is narrower than \<open>pd.to_datetime\<close>, which is called
  without a format and infers one: a cell in another date format is NaT here and may be a
  timestamp there. The two agree on cells in the documented format and on cells that are
  no date at all, and only such cells are given to it below.
\<close>

definition digit :: "char \<Rightarrow> int option" where
  "digit c = map_of [(CHR ''0'', 0), (CHR ''1'', 1), (CHR ''2'', 2), (CHR ''3'', 3),
     (CHR ''4'', 4), (CHR ''5'', 5), (CHR ''6'', 6), (CHR ''7'', 7), (CHR ''8'', 8),
     (CHR ''9'', 9)] c"

definition number :: "string \<Rightarrow> int option" where
  "number cs =
     foldl (\<lambda>acc c. case (acc, digit c) of (Some a, Some d) \<Rightarrow> Some (10 * a + d) | _ \<Rightarrow> None)
       (Some 0) cs"

definition parse_datetime :: "string \<Rightarrow> datetime option" where
  "parse_datetime s =
     (if length s = 19 \<and> s ! 4 = CHR ''-'' \<and> s ! 7 = CHR ''-'' \<and> s ! 10 = CHR '' ''
         \<and> s ! 13 = CHR '':'' \<and> s ! 16 = CHR '':''
      then
        (case map number [take 4 s, take 2 (drop 5 s), take 2 (drop 8 s),
                          take 2 (drop 11 s), take 2 (drop 14 s), take 2 (drop 17 s)] of
           [Some y, Some mo, Some d, Some h, Some mi, Some se] \<Rightarrow>
             (let t = \<lparr>year = y, month = mo, day = d, hour = h, minute = mi, second = se\<rparr>
              in if valid_datetime t then Some t else None)
         | _ \<Rightarrow> None)
      else None)"

subsection \<open>Grouped means: \<open>df.groupby(key)[var].mean()\<close>\<close>

text \<open>
  \<open>groupby\<close> with its defaults (\<open>sort=True\<close>, \<open>dropna=True\<close>): a row whose key is
  missing belongs to no group, and the groups come out in ascending key order. The mean
  of a group skips the missing values of \<open>var\<close> and is NaN when none is left. The model
  makes one pass over the rows that keeps a running sum and count per key, in order of
  first appearance, then sorts the keys and divides.
\<close>

definition group_add ::
    "('k \<times> real \<times> nat) list \<Rightarrow> 'k option \<times> real option \<Rightarrow> ('k \<times> real \<times> nat) list" where
  "group_add acc kv =
     (case kv of
        (None, v) \<Rightarrow> acc
      | (Some k, v) \<Rightarrow>
          (let (s, n) = (case map_of acc k of None \<Rightarrow> (0, 0) | Some sn \<Rightarrow> sn)
           in AList.update k (case v of None \<Rightarrow> (s, n) | Some x \<Rightarrow> (s + x, n + 1)) acc))"

definition group_mean :: "'k \<times> real \<times> nat \<Rightarrow> 'k \<times> real option" where
  "group_mean g = (case g of (k, s, n) \<Rightarrow> (k, if n = 0 then None else Some (s / real n)))"

definition groupby_mean ::
    "('k::linorder) option list \<Rightarrow> real option list \<Rightarrow> ('k \<times> real option) list" where
  "groupby_mean keys var =
     map group_mean (sort_key fst (foldl group_add [] (zip keys var)))"

text \<open>
  The columns of \<open>main\<close>. \<open>df.index.month\<close> and \<open>df.index.hour\<close> are NaN at a NaT
  index entry. \<open>df.index.month.map(get_season)\<close> calls \<open>get_season\<close> on every entry; at
  NaN all three membership tests are false, so the else branch returns 4.
\<close>

definition wind_speed_column :: "dataframe \<Rightarrow> real option list" where
  "wind_speed_column df = calculate_wind_speed (map u10m df) (map v10m df)"

definition index_month :: "dataframe \<Rightarrow> int option list" where
  "index_month df = map (\<lambda>r. map_option month (timestamp r)) df"


definition season_column :: "dataframe \<Rightarrow> int list" where
  "season_column df = map (\<lambda>m. case m of None \<Rightarrow> 4 | Some k \<Rightarrow> get_season k) (index_month df)"




text \<open>
  The reference the specification names for the aggregates: for every key that occurs,
  in ascending order, collect the values of the rows with that key and take their
  arithmetic mean.
\<close>

definition rows_in_bucket :: "'k \<Rightarrow> ('k option \<times> real) list \<Rightarrow> real list" where
  "rows_in_bucket k kvs = map snd (filter (\<lambda>kv. fst kv = Some k) kvs)"

definition arithmetic_mean :: "real list \<Rightarrow> real" where
  "arithmetic_mean xs = sum_list xs / real (length xs)"

definition occurring_keys :: "('k::linorder) option list \<Rightarrow> 'k list" where
  "occurring_keys keys = sort (remdups (List.map_filter id keys))"

definition brute_force_group_means ::
    "('k::linorder) option list \<Rightarrow> real list \<Rightarrow> ('k \<times> real option) list" where
  "brute_force_group_means keys vals =
     map (\<lambda>k. (k, Some (arithmetic_mean (rows_in_bucket k (zip keys vals)))))
       (occurring_keys (take (length vals) keys))"

subsection \<open>Daily means: \<open>df.resample('D').mean(numeric_only=True)\<close>\<close>

text \<open>
  When the daily means are taken the DataFrame holds the loaded columns and the two
  derived ones, \<open>wind_speed\<close> and \<open>season\<close> (\<open>hour\<close> is added later).
\<close>

record derived_row = row +
  wind_speed :: "real option"
  season :: int

definition assign_columns :: "dataframe \<Rightarrow> real option list \<Rightarrow> int list \<Rightarrow> derived_row list" where
  "assign_columns df ws seasons =
     map (\<lambda>(r, w, s). \<lparr>timestamp = timestamp r, u10m = u10m r, v10m = v10m r,
                         others = others r, wind_speed = w, season = s\<rparr>)
       (zip df (zip ws seasons))"

text \<open>The calendar day of a timestamp as a day number (proleptic Gregorian ordinal).\<close>

definition days_before_year :: "int \<Rightarrow> int" where
  "days_before_year y = (y - 1) * 365 + (y - 1) div 4 - (y - 1) div 100 + (y - 1) div 400"

definition days_before_month :: "int \<Rightarrow> int \<Rightarrow> int" where
  "days_before_month y m = sum_list (map (days_in_month y) [1..m - 1])"

definition toordinal :: "datetime \<Rightarrow> int" where
  "toordinal t = days_before_year (year t) + days_before_month (year t) (month t) + day t"

definition mean_skipna :: "real option list \<Rightarrow> real option" where
  "mean_skipna vs =
     (let xs = List.map_filter id vs
      in if xs = [] then None else Some (sum_list xs / real (length xs)))"

record daily =
  day_ordinal :: int
  u10m_mean :: "real option"
  v10m_mean :: "real option"
  others_mean :: "real option list"
  wind_speed_mean :: "real option"
  season_mean :: "real option"

definition other_column :: "nat \<Rightarrow> derived_row \<Rightarrow> real option" where
  "other_column j r = (if j < length (others r) then others r ! j else None)"

definition daily_mean :: "nat \<Rightarrow> int \<Rightarrow> derived_row list \<Rightarrow> daily" where
  "daily_mean width d bucket =
     \<lparr>day_ordinal = d,
      u10m_mean = mean_skipna (map u10m bucket),
      v10m_mean = mean_skipna (map v10m bucket),
      others_mean = map (\<lambda>j. mean_skipna (map (other_column j) bucket)) [0..<width],
      wind_speed_mean = mean_skipna (map wind_speed bucket),
      season_mean = mean_skipna (map (\<lambda>r. Some (real_of_int (season r))) bucket)\<rparr>"

text \<open>
  \<open>resample('D')\<close> lays daily bins from the day of the earliest timestamp to the day of
  the latest one, one bin per calendar day, and \<open>mean\<close> gives every bin a row: the mean
  of each numeric column over the rows of that day, NaN in every column for a day with no
  row. Rows with a NaT index entry fall in no bin.
\<close>

definition row_day :: "derived_row \<Rightarrow> int" where
  "row_day r = toordinal (the (timestamp r))"

definition n_others :: "derived_row list \<Rightarrow> nat" where
  "n_others df = (case df of [] \<Rightarrow> 0 | r # rs \<Rightarrow> length (others r))"

definition resample_D_mean :: "derived_row list \<Rightarrow> daily list" where
  "resample_D_mean df =
     (let stamped = filter (\<lambda>r. timestamp r \<noteq> None) df;
          days = map row_day stamped
      in if days = [] then []
         else map (\<lambda>d. daily_mean (n_others df) d (filter (\<lambda>r. row_day r = d) stamped))
                [Min (set days)..Max (set days)])"

text \<open>
  \<open>Series.nlargest(n)\<close> with \<open>keep='first'\<close>, as pandas 1.4 and later compute it
  (earlier releases leave the NaN entries out). The entries without a value are set
  aside and put back after the ranked ones, and the first \<open>n\<close> entries are returned.
  When \<open>n\<close> is smaller than the length of the series, the entries with a value are ranked
  by a stable sort (\<open>kind='mergesort'\<close>) on the negated values: descending, equal values in
  their order of appearance. When \<open>n\<close> is at least the length, the result is
  \<open>sort_values(ascending=False).head(n)\<close>, which sorts with the default
  \<open>kind='quicksort'\<close>; that routine promises a descending order and no order among
  equal values, so it is a parameter \<open>sorter\<close>, applied to the entries with a value.
\<close>

definition descending_sort ::
    "((int \<times> real option) list \<Rightarrow> (int \<times> real option) list) \<Rightarrow> bool" where
  "descending_sort sorter =
     (\<forall>xs. mset (sorter xs) = mset xs \<and> sorted (map (\<lambda>e. - the (snd e)) (sorter xs)))"

definition stable_descending :: "(int \<times> real option) list \<Rightarrow> (int \<times> real option) list" where
  "stable_descending xs = sort_key (\<lambda>e. - the (snd e)) xs"

definition nlargest ::
    "((int \<times> real option) list \<Rightarrow> (int \<times> real option) list) \<Rightarrow> nat \<Rightarrow>
     (int \<times> real option) list \<Rightarrow> (int \<times> real option) list" where
  "nlargest sorter n s =
     take n ((if length s \<le> n then sorter (filter (\<lambda>e. snd e \<noteq> None) s)
              else stable_descending (filter (\<lambda>e. snd e \<noteq> None) s))
             @ filter (\<lambda>e. snd e = None) s)"

text \<open>
  The part of \<open>main\<close> that follows the loading of one city, up to the values it prints
  and plots.
\<close>

definition daily_table :: "dataframe \<Rightarrow> daily list" where
  "daily_table df =
     resample_D_mean (assign_columns df (wind_speed_column df) (season_column df))"

text \<open>\<^verbatim>\<open>df_berlin_daily['wind_speed'].nlargest(5)\<close>\<close>

definition daily_wind_speed :: "dataframe \<Rightarrow> (int \<times> real option) list" where
  "daily_wind_speed df = map (\<lambda>d. (day_ordinal d, wind_speed_mean d)) (daily_table df)"

definition extreme_days ::
    "((int \<times> real option) list \<Rightarrow> (int \<times> real option) list) \<Rightarrow> dataframe \<Rightarrow>
     (int \<times> real option) list" where
  "extreme_days sorter df = nlargest sorter 5 (daily_wind_speed df)"



subsection \<open>Auxiliary notions for the statements\<close>

text \<open>
  What one pass of \<open>group_add\<close> knows of a key: nothing when no row has the key, else
  the sum and the number of the values of its rows.
\<close>

definition tally :: "'k \<Rightarrow> ('k option \<times> real) list \<Rightarrow> (real \<times> nat) option" where
  "tally k kvs = (if rows_in_bucket k kvs = [] then None
     else Some (sum_list (rows_in_bucket k kvs), length (rows_in_bucket k kvs)))"




text \<open>
  The calendar days on which a table has rows, one entry per row with a timestamp.
\<close>

definition observed_days :: "derived_row list \<Rightarrow> int list" where
  "observed_days rows = map row_day (filter (\<lambda>r. timestamp r \<noteq> None) rows)"

definition table_days :: "dataframe \<Rightarrow> int list" where
  "table_days df = observed_days (assign_columns df (wind_speed_column df) (season_column df))"

text \<open>A daily row that is NaN in every column.\<close>

definition all_missing :: "daily \<Rightarrow> bool" where
  "all_missing e = (u10m_mean e = None \<and> v10m_mean e = None \<and> list_all (\<lambda>m. m = None) (others_mean e)
     \<and> wind_speed_mean e = None \<and> season_mean e = None)"

text \<open>
  The order of a ranking: an entry with a value stands before every entry without one,
  and among entries with values the larger stands first.
\<close>

definition ranks_before :: "int \<times> real option \<Rightarrow> int \<times> real option \<Rightarrow> bool" where
  "ranks_before a b = (snd b = None \<or> (snd a \<noteq> None \<and> the (snd b) \<le> the (snd a)))"

text \<open>A table with rows on 2024-01-01 and 2024-01-03 and none on the day between.\<close>

definition gap_table :: dataframe where
  "gap_table =
     [\<lparr>timestamp = Some \<lparr>year = 2024, month = 1, day = 1, hour = 0, minute = 0, second = 0\<rparr>,
        u10m = Some 3, v10m = Some 4, others = []\<rparr>,
      \<lparr>timestamp = Some \<lparr>year = 2024, month = 1, day = 3, hour = 0, minute = 0, second = 0\<rparr>,
        u10m = Some 0, v10m = Some 0, others = []\<rparr>]"

text \<open>
  A table with one row on each of the six days 2024-01-01 to 2024-01-06, with wind speeds
  0, 5, 0, 5, 0, 5.
\<close>

definition week_table :: dataframe where
  "week_table =
     [\<lparr>timestamp = Some \<lparr>year = 2024, month = 1, day = 1, hour = 0, minute = 0, second = 0\<rparr>,
        u10m = Some 0, v10m = Some 0, others = []\<rparr>,
      \<lparr>timestamp = Some \<lparr>year = 2024, month = 1, day = 2, hour = 0, minute = 0, second = 0\<rparr>,
        u10m = Some 3, v10m = Some 4, others = []\<rparr>,
      \<lparr>timestamp = Some \<lparr>year = 2024, month = 1, day = 3, hour = 0, minute = 0, second = 0\<rparr>,
        u10m = Some 0, v10m = Some 0, others = []\<rparr>,
      \<lparr>timestamp = Some \<lparr>year = 2024, month = 1, day = 4, hour = 0, minute = 0, second = 0\<rparr>,
        u10m = Some 3, v10m = Some 4, others = []\<rparr>,
      \<lparr>timestamp = Some \<lparr>year = 2024, month = 1, day = 5, hour = 0, minute = 0, second = 0\<rparr>,
        u10m = Some 0, v10m = Some 0, others = []\<rparr>,
      \<lparr>timestamp = Some \<lparr>year = 2024, month = 1, day = 6, hour = 0, minute = 0, second = 0\<rparr>,
        u10m = Some 3, v10m = Some 4, others = []\<rparr>]"

section \<open>Properties\<close>

subsection \<open>Helper lemmas\<close>

lemma calculate_wind_speed_length:
  "length (calculate_wind_speed u v) = min (length u) (length v)"
  by (simp add: calculate_wind_speed_def series_sqrt_def series_add_def series_pow2_def)

lemma calculate_wind_speed_nth:
  assumes "i < length u" and "i < length v"
  shows "calculate_wind_speed u v ! i =
     (case (u ! i, v ! i) of (Some a, Some b) \<Rightarrow> Some (sqrt (a ^ 2 + b ^ 2)) | _ \<Rightarrow> None)"
  using assms
  by (simp add: calculate_wind_speed_def series_sqrt_def series_add_def series_pow2_def
      split: option.splits)

lemma mset_sort_index: "mset (sort_index df) = mset df"
  by (simp add: sort_index_def)

lemma set_sort_index: "set (sort_index df) = set df"
  by (metis mset_sort_index set_mset_mset)

lemma group_add_None [simp]: "group_add acc (None, v) = acc"
  by (simp add: group_add_def)

lemma group_add_Some:
  "group_add acc (Some k, Some x) =
     AList.update k (case map_of acc k of None \<Rightarrow> (x, 1) | Some (s, n) \<Rightarrow> (s + x, n + 1)) acc"
  by (simp add: group_add_def split: option.splits)

lemma distinct_group_add:
  "distinct (map fst acc) \<Longrightarrow> distinct (map fst (group_add acc kv))"
  by (cases kv) (auto simp add: group_add_def distinct_update split: option.splits prod.splits)

lemma rows_in_bucket_snoc:
  "rows_in_bucket k (kvs @ [(k', x)]) =
     (if k' = Some k then rows_in_bucket k kvs @ [x] else rows_in_bucket k kvs)"
  by (simp add: rows_in_bucket_def)

lemma foldl_group_add_tally:
  "distinct (map fst (foldl group_add [] (map (apsnd Some) kvs)))
    \<and> map_of (foldl group_add [] (map (apsnd Some) kvs)) = (\<lambda>k. tally k kvs)"
proof (induction kvs rule: rev_induct)
  case Nil
  show ?case by (simp add: tally_def rows_in_bucket_def fun_eq_iff)
next
  case (snoc kv kvs)
  let ?acc = "foldl group_add [] (map (apsnd Some) kvs)"
  obtain k' x where kv: "kv = (k', x)" by (cases kv)
  have d: "distinct (map fst (group_add ?acc (k', Some x)))"
    using snoc.IH by (simp add: distinct_group_add)
  have m: "map_of (group_add ?acc (k', Some x)) k = tally k (kvs @ [(k', x)])" for k
  proof (cases k')
    case None
    then show ?thesis using snoc.IH by (simp add: tally_def rows_in_bucket_snoc)
  next
    case (Some j)
    show ?thesis
    proof (cases "k = j")
      case True
      then show ?thesis
        using snoc.IH Some
        by (simp add: group_add_Some update_conv' tally_def rows_in_bucket_snoc)
    next
      case False
      then show ?thesis
        using snoc.IH Some
        by (simp add: group_add_Some update_conv' tally_def rows_in_bucket_snoc)
    qed
  qed
  show ?case using d m by (simp add: kv fun_eq_iff)
qed

lemma tally_eq_None_iff: "tally k kvs = None \<longleftrightarrow> Some k \<notin> fst ` set kvs"
  by (force simp add: tally_def rows_in_bucket_def filter_empty_conv image_iff)

lemma set_occurring_keys: "set (occurring_keys ks) = {k. Some k \<in> set ks}"
  by (force simp add: occurring_keys_def List.map_filter_def image_iff)

lemma sorted_distinct_occurring_keys:
  "sorted (occurring_keys ks) \<and> distinct (occurring_keys ks)"
  by (simp add: occurring_keys_def)

lemma groupby_mean_brute_force:
  "groupby_mean keys (map Some vals) = brute_force_group_means keys vals"
proof -
  let ?kvs = "zip keys vals"
  let ?acc = "foldl group_add [] (map (apsnd Some) ?kvs)"
  let ?L = "sort_key fst ?acc"
  let ?g = "\<lambda>k. (k, Some (arithmetic_mean (rows_in_bucket k ?kvs)))"
  have z: "zip keys (map Some vals) = map (apsnd Some) ?kvs"
    by (simp add: zip_map2 apsnd_def map_prod_def)
  have inv: "distinct (map fst ?acc)" "map_of ?acc = (\<lambda>k. tally k ?kvs)"
    using foldl_group_add_tally [of ?kvs] by simp_all
  have dom: "fst ` set ?acc = {k. Some k \<in> fst ` set ?kvs}"
  proof -
    have "fst ` set ?acc = dom (map_of ?acc)"
      by (simp add: dom_map_of_conv_image_fst)
    also have "\<dots> = {k. tally k ?kvs \<noteq> None}"
      by (simp add: inv(2) dom_def)
    finally show ?thesis by (simp add: tally_eq_None_iff)
  qed
  have keys_eq: "map fst ?L = occurring_keys (take (length vals) keys)"
  proof (rule sorted_distinct_set_unique)
    show "sorted (map fst ?L)" by simp
    have "mset (map fst ?L) = mset (map fst ?acc)" by simp
    then show "distinct (map fst ?L)"
      using inv(1) by (metis mset_eq_imp_distinct_iff)
    show "sorted (occurring_keys (take (length vals) keys))"
      by (simp add: sorted_distinct_occurring_keys)
    show "distinct (occurring_keys (take (length vals) keys))"
      by (simp add: sorted_distinct_occurring_keys)
    have "fst ` set ?kvs = set (take (length vals) keys)"
      by (metis list.set_map map_fst_zip_take min.commute take_all_iff take_take linear)
    then show "set (map fst ?L) = set (occurring_keys (take (length vals) keys))"
      by (simp add: dom set_occurring_keys)
  qed
  have vals_eq: "group_mean p = ?g (fst p)" if "p \<in> set ?L" for p
  proof -
    obtain k s n where p: "p = (k, s, n)" by (cases p)
    have "(k, s, n) \<in> set ?acc" using that p by simp
    then have "map_of ?acc k = Some (s, n)" using inv(1) by simp
    then have "tally k ?kvs = Some (s, n)" by (simp add: inv(2))
    then have "rows_in_bucket k ?kvs \<noteq> []" "s = sum_list (rows_in_bucket k ?kvs)"
        "n = length (rows_in_bucket k ?kvs)"
      by (auto simp add: tally_def split: if_splits)
    then show ?thesis by (simp add: p group_mean_def arithmetic_mean_def)
  qed
  have "groupby_mean keys (map Some vals) = map group_mean ?L"
    by (simp add: groupby_mean_def z)
  also have "\<dots> = map ?g (map fst ?L)"
    using vals_eq by simp
  also have "\<dots> = brute_force_group_means keys vals"
    by (simp only: keys_eq brute_force_group_means_def)
  finally show ?thesis .
qed

lemma groupby_mean_keys:
  "map fst (groupby_mean keys (map Some vals)) = occurring_keys (take (length vals) keys)"
  by (simp add: groupby_mean_brute_force brute_force_group_means_def comp_def)





lemma sqrt_25: "sqrt 25 = 5"
  by (rule real_sqrt_unique) simp_all


lemma mean_skipna_Nil [simp]: "mean_skipna [] = None"
  by (simp add: mean_skipna_def List.map_filter_def)

lemma resample_D_mean_days:
  "map day_ordinal (resample_D_mean rows) =
     (if observed_days rows = [] then []
      else [Min (set (observed_days rows))..Max (set (observed_days rows))])"
  by (simp add: resample_D_mean_def Let_def observed_days_def comp_def daily_mean_def)

lemma observed_days_covered:
  "set (observed_days rows) \<subseteq> set (map day_ordinal (resample_D_mean rows))"
proof
  fix d
  assume d: "d \<in> set (observed_days rows)"
  then have ne: "observed_days rows \<noteq> []" by auto
  have "Min (set (observed_days rows)) \<le> d" "d \<le> Max (set (observed_days rows))"
    using d by simp_all
  then show "d \<in> set (map day_ordinal (resample_D_mean rows))"
    using ne by (simp add: resample_D_mean_days)
qed

lemma distinct_resample_days: "distinct (map day_ordinal (resample_D_mean rows))"
  by (simp add: resample_D_mean_days)

lemma resample_D_mean_rows:
  assumes "e \<in> set (resample_D_mean rows)"
  shows "e = daily_mean (n_others rows) (day_ordinal e)
           (filter (\<lambda>r. row_day r = day_ordinal e) (filter (\<lambda>r. timestamp r \<noteq> None) rows))"
  using assms by (auto simp add: resample_D_mean_def Let_def daily_mean_def split: if_splits)

lemma resample_D_mean_gap:
  assumes "e \<in> set (resample_D_mean rows)" and "day_ordinal e \<notin> set (observed_days rows)"
  shows "all_missing e"
proof -
  have "filter (\<lambda>r. row_day r = day_ordinal e) (filter (\<lambda>r. timestamp r \<noteq> None) rows) = []"
    using assms(2) by (force simp add: observed_days_def filter_empty_conv image_iff)
  then have "e = daily_mean (n_others rows) (day_ordinal e) []"
    using resample_D_mean_rows [OF assms(1)] by simp
  then have "all_missing e = all_missing (daily_mean (n_others rows) (day_ordinal e) [])"
    by simp
  then show ?thesis
    by (simp add: all_missing_def daily_mean_def list_all_iff)
qed

lemma daily_table_gap:
  "daily_table gap_table =
     [\<lparr>day_ordinal = 738886, u10m_mean = Some 3, v10m_mean = Some 4, others_mean = [],
        wind_speed_mean = Some 5, season_mean = Some 1\<rparr>,
      \<lparr>day_ordinal = 738887, u10m_mean = None, v10m_mean = None, others_mean = [],
        wind_speed_mean = None, season_mean = None\<rparr>,
      \<lparr>day_ordinal = 738888, u10m_mean = Some 0, v10m_mean = Some 0, others_mean = [],
        wind_speed_mean = Some 0, season_mean = Some 1\<rparr>]"
  by (simp add: daily_table_def gap_table_def wind_speed_column_def calculate_wind_speed_def
      series_sqrt_def series_add_def series_pow2_def sqrt_25 season_column_def index_month_def
      get_season_def assign_columns_def resample_D_mean_def Let_def row_day_def toordinal_def
      days_before_year_def days_before_month_def n_others_def daily_mean_def mean_skipna_def
      List.map_filter_def)

lemma table_days_gap: "table_days gap_table = [738886, 738888]"
  by (simp add: table_days_def observed_days_def gap_table_def assign_columns_def
      wind_speed_column_def calculate_wind_speed_def series_sqrt_def series_add_def
      series_pow2_def season_column_def index_month_def row_day_def toordinal_def
      days_before_year_def days_before_month_def)

lemma descending_sort_stable: "descending_sort stable_descending"
  by (simp add: descending_sort_def stable_descending_def)

lemma ranked_entries:
  assumes "descending_sort sorter"
  shows "mset (if length s \<le> n then sorter (filter (\<lambda>e. snd e \<noteq> None) s)
               else stable_descending (filter (\<lambda>e. snd e \<noteq> None) s))
           = mset (filter (\<lambda>e. snd e \<noteq> None) s)"
    and "sorted (map (\<lambda>e. - the (snd e))
           (if length s \<le> n then sorter (filter (\<lambda>e. snd e \<noteq> None) s)
            else stable_descending (filter (\<lambda>e. snd e \<noteq> None) s)))"
  using assms by (simp_all add: descending_sort_def stable_descending_def)

lemma ranking_properties:
  assumes m: "mset A = mset (filter (\<lambda>e. snd e \<noteq> None) s)"
    and srt: "sorted (map (\<lambda>e. - the (snd e)) A)"
  shows "mset (A @ filter (\<lambda>e. snd e = None) s) = mset s"
    and "sorted_wrt ranks_before (A @ filter (\<lambda>e. snd e = None) s)"
    and "length (A @ filter (\<lambda>e. snd e = None) s) = length s"
    and "\<forall>e \<in> set A. snd e \<noteq> None"
    and "length A = length (filter (\<lambda>e. snd e \<noteq> None) s)"
proof -
  let ?B = "filter (\<lambda>e. snd e = None) s"
  have "mset (A @ ?B) = mset (filter (\<lambda>e. snd e \<noteq> None) s) + mset (filter (\<lambda>e. \<not> snd e \<noteq> None) s)"
    using m by simp
  also have "\<dots> = mset s"
    by (simp only: mset_filter multiset_partition [symmetric])
  finally show all: "mset (A @ ?B) = mset s" .
  then show "length (A @ ?B) = length s"
    by (rule mset_eq_length)
  have "set A = set (filter (\<lambda>e. snd e \<noteq> None) s)"
    using m by (rule mset_eq_setD)
  then show valued: "\<forall>e \<in> set A. snd e \<noteq> None"
    by simp
  show "length A = length (filter (\<lambda>e. snd e \<noteq> None) s)"
    using m by (rule mset_eq_length)
  have "sorted_wrt (\<lambda>a b. - the (snd a) \<le> - the (snd b)) A"
    using srt by (simp add: sorted_map)
  then have A: "sorted_wrt ranks_before A"
    by (rule sorted_wrt_mono_rel [rotated]) (use valued in \<open>auto simp add: ranks_before_def\<close>)
  have B: "sorted_wrt ranks_before ?B"
    by (rule sorted_wrt_mono_rel [of _ "\<lambda>a b. True"]) (auto simp add: ranks_before_def)
  show "sorted_wrt ranks_before (A @ ?B)"
    using A B by (auto simp add: sorted_wrt_append ranks_before_def)
qed

lemma nlargest_shape:
  assumes "descending_sort sorter"
  obtains A where "nlargest sorter n s = take n (A @ filter (\<lambda>e. snd e = None) s)"
    and "mset A = mset (filter (\<lambda>e. snd e \<noteq> None) s)"
    and "sorted (map (\<lambda>e. - the (snd e)) A)"
proof -
  define A where "A = (if length s \<le> n then sorter (filter (\<lambda>e. snd e \<noteq> None) s)
            else stable_descending (filter (\<lambda>e. snd e \<noteq> None) s))"
  have "nlargest sorter n s = take n (A @ filter (\<lambda>e. snd e = None) s)"
    by (simp only: nlargest_def A_def)
  moreover have "mset A = mset (filter (\<lambda>e. snd e \<noteq> None) s)"
    unfolding A_def by (rule ranked_entries(1) [OF assms])
  moreover have "sorted (map (\<lambda>e. - the (snd e)) A)"
    unfolding A_def by (rule ranked_entries(2) [OF assms])
  ultimately show thesis by (rule that)
qed

lemma length_nlargest:
  assumes "descending_sort sorter"
  shows "length (nlargest sorter n s) = min n (length s)"
proof -
  obtain A where shape: "nlargest sorter n s = take n (A @ filter (\<lambda>e. snd e = None) s)"
    and m: "mset A = mset (filter (\<lambda>e. snd e \<noteq> None) s)"
    and srt: "sorted (map (\<lambda>e. - the (snd e)) A)"
    using assms by (rule nlargest_shape)
  have full: "length (A @ filter (\<lambda>e. snd e = None) s) = length s"
    using m srt by (rule ranking_properties(3))
  have "length (nlargest sorter n s) = min (length (A @ filter (\<lambda>e. snd e = None) s)) n"
    by (simp only: shape length_take)
  then show ?thesis
    by (simp only: full min.commute)
qed

lemma nlargest_rest:
  assumes "descending_sort sorter"
  shows "\<exists>rest. mset (nlargest sorter n s @ rest) = mset s
    \<and> sorted_wrt ranks_before (nlargest sorter n s @ rest)"
proof -
  obtain A where shape: "nlargest sorter n s = take n (A @ filter (\<lambda>e. snd e = None) s)"
    and m: "mset A = mset (filter (\<lambda>e. snd e \<noteq> None) s)"
    and srt: "sorted (map (\<lambda>e. - the (snd e)) A)"
    using assms by (rule nlargest_shape)
  define full where "full = A @ filter (\<lambda>e. snd e = None) s"
  have all: "mset full = mset s"
    unfolding full_def using m srt by (rule ranking_properties(1))
  have ord: "sorted_wrt ranks_before full"
    unfolding full_def using m srt by (rule ranking_properties(2))
  have "nlargest sorter n s @ drop n full = full"
    by (simp only: shape full_def [symmetric] append_take_drop_id)
  then have "mset (nlargest sorter n s @ drop n full) = mset s
      \<and> sorted_wrt ranks_before (nlargest sorter n s @ drop n full)"
    using all ord by (simp only:)
  then show ?thesis by (rule exI)
qed

lemma sorted_wrt_nlargest:
  assumes "descending_sort sorter"
  shows "sorted_wrt ranks_before (nlargest sorter n s)"
proof -
  obtain rest where "sorted_wrt ranks_before (nlargest sorter n s @ rest)"
    using nlargest_rest [OF assms, of n s] by blast
  then show ?thesis
    by (simp only: sorted_wrt_append)
qed

lemma nlargest_valued:
  assumes "descending_sort sorter" and "n \<le> length (filter (\<lambda>e. snd e \<noteq> None) s)"
  shows "list_all (\<lambda>e. snd e \<noteq> None) (nlargest sorter n s)"
proof -
  obtain A where shape: "nlargest sorter n s = take n (A @ filter (\<lambda>e. snd e = None) s)"
    and m: "mset A = mset (filter (\<lambda>e. snd e \<noteq> None) s)"
    and srt: "sorted (map (\<lambda>e. - the (snd e)) A)"
    using assms(1) by (rule nlargest_shape)
  have valued: "\<forall>e \<in> set A. snd e \<noteq> None"
    using m srt by (rule ranking_properties(4))
  have "length A = length (filter (\<lambda>e. snd e \<noteq> None) s)"
    using m srt by (rule ranking_properties(5))
  then have "n \<le> length A"
    using assms(2) by (simp only:)
  then have "take n (A @ filter (\<lambda>e. snd e = None) s) = take n A"
    by simp
  then have "nlargest sorter n s = take n A"
    by (simp only: shape)
  moreover have "set (take n A) \<subseteq> set A"
    by (rule set_take_subset)
  ultimately show ?thesis
    using valued by (auto simp add: list_all_iff)
qed

lemma nlargest_ties:
  assumes "n < length s"
  shows "prefix (filter (\<lambda>e. snd e = Some w) (nlargest sorter n s))
           (filter (\<lambda>e. snd e = Some w) s)"
proof -
  let ?f = "\<lambda>e::int \<times> real option. - the (snd e)"
  let ?V = "filter (\<lambda>e. snd e \<noteq> None) s"
  let ?A = "sort_key ?f ?V"
  let ?B = "filter (\<lambda>e. snd e = None) s"
  let ?P = "\<lambda>e::int \<times> real option. snd e = Some w"
  have "filter ?P ?A = filter ?P (filter (\<lambda>e. ?f e = - w) ?A)"
    by (auto intro!: filter_cong)
  also have "\<dots> = filter ?P (filter (\<lambda>e. ?f e = - w) ?V)"
    by (simp only: sort_key_stable)
  also have "\<dots> = filter ?P s"
    by (auto intro!: filter_cong)
  finally have A: "filter ?P ?A = filter ?P s" .
  have B: "filter ?P ?B = []"
    by (auto simp add: filter_empty_conv)
  have full: "filter ?P (?A @ ?B) = filter ?P s"
    by (simp only: filter_append A B append_Nil2)
  have "prefix (filter ?P (take n (?A @ ?B))) (filter ?P (?A @ ?B))"
    by (rule filter_mono_prefix) (rule take_is_prefix)
  then have pre: "prefix (filter ?P (take n (?A @ ?B))) (filter ?P s)"
    by (simp only: full)
  have "\<not> length s \<le> n"
    using assms by simp
  then have "nlargest sorter n s = take n (?A @ ?B)"
    by (simp only: nlargest_def stable_descending_def if_False)
  then show ?thesis
    using pre by (simp only:)
qed

lemma daily_table_week:
  "daily_table week_table =
     [\<lparr>day_ordinal = 738886, u10m_mean = Some 0, v10m_mean = Some 0, others_mean = [],
        wind_speed_mean = Some 0, season_mean = Some 1\<rparr>,
      \<lparr>day_ordinal = 738887, u10m_mean = Some 3, v10m_mean = Some 4, others_mean = [],
        wind_speed_mean = Some 5, season_mean = Some 1\<rparr>,
      \<lparr>day_ordinal = 738888, u10m_mean = Some 0, v10m_mean = Some 0, others_mean = [],
        wind_speed_mean = Some 0, season_mean = Some 1\<rparr>,
      \<lparr>day_ordinal = 738889, u10m_mean = Some 3, v10m_mean = Some 4, others_mean = [],
        wind_speed_mean = Some 5, season_mean = Some 1\<rparr>,
      \<lparr>day_ordinal = 738890, u10m_mean = Some 0, v10m_mean = Some 0, others_mean = [],
        wind_speed_mean = Some 0, season_mean = Some 1\<rparr>,
      \<lparr>day_ordinal = 738891, u10m_mean = Some 3, v10m_mean = Some 4, others_mean = [],
        wind_speed_mean = Some 5, season_mean = Some 1\<rparr>]"
  by (simp add: daily_table_def week_table_def wind_speed_column_def calculate_wind_speed_def
      series_sqrt_def series_add_def series_pow2_def sqrt_25 season_column_def index_month_def
      get_season_def assign_columns_def resample_D_mean_def Let_def row_day_def toordinal_def
      days_before_year_def days_before_month_def n_others_def daily_mean_def mean_skipna_def
      List.map_filter_def)

lemma extreme_days_week:
  "extreme_days stable_descending week_table =
     [(738887, Some 5), (738889, Some 5), (738891, Some 5), (738886, Some 0), (738888, Some 0)]"
  by (simp add: extreme_days_def nlargest_def stable_descending_def daily_wind_speed_def
      daily_table_week)

subsection \<open>Season mapping\<close>

text \<open>
  C3: on the months 1..12 \<open>get_season\<close> returns one of the four codes 1..4, by the rule
  {12,1,2} to 1 (Winter), {3,4,5} to 2 (Spring), {6,7,8} to 3 (Summer), {9,10,11} to 4
  (Autumn); in particular months 1 and 12 are Winter and month 6 is Summer.
\<close>

theorem get_season_on_months:
  assumes "1 \<le> m" and "m \<le> 12"
  shows "get_season m \<in> {1, 2, 3, 4}
    \<and> (get_season m = 1) = (m \<in> {12, 1, 2})
    \<and> (get_season m = 2) = (m \<in> {3, 4, 5})
    \<and> (get_season m = 3) = (m \<in> {6, 7, 8})
    \<and> (get_season m = 4) = (m \<in> {9, 10, 11})
    \<and> season_labels (get_season 1) = Some ''Winter''
    \<and> season_labels (get_season 6) = Some ''Summer''
    \<and> season_labels (get_season 12) = Some ''Winter''"
proof -
  have "m = 1 \<or> m = 2 \<or> m = 3 \<or> m = 4 \<or> m = 5 \<or> m = 6 \<or> m = 7 \<or> m = 8
      \<or> m = 9 \<or> m = 10 \<or> m = 11 \<or> m = 12"
    using assms by arith
  then have range: "m \<in> {1, 2, 3, 4, 5, 6, 7, 8, 9, 10, 11, 12}"
    by simp
  have fixed: "get_season 1 = 1" "get_season 6 = 3" "get_season 12 = 1"
    by (simp_all add: get_season_def)
  from range have "get_season m \<in> {1, 2, 3, 4}"
    and "(get_season m = 1) = (m \<in> {12, 1, 2})"
    and "(get_season m = 2) = (m \<in> {3, 4, 5})"
    and "(get_season m = 3) = (m \<in> {6, 7, 8})"
    and "(get_season m = 4) = (m \<in> {9, 10, 11})"
    by (auto simp add: get_season_def)
  then show ?thesis
    by (simp add: fixed season_labels_def)
qed

theorem get_season_on_months_witness:
  "(1::int) \<le> 7 \<and> (7::int) \<le> 12 \<and> get_season 7 = 3
    \<and> season_labels (get_season 12) = Some ''Winter''"
  using get_season_on_months [of 7] by simp

text \<open>
  C10: \<open>get_season\<close> is defined on every integer: a month outside {12,1,2}, {3,4,5} and
  {6,7,8}, such as 0 or 13, falls into the last branch and gets the Autumn code 4.
\<close>

theorem get_season_else_branch:
  assumes "m \<notin> {12, 1, 2}" and "m \<notin> {3, 4, 5}" and "m \<notin> {6, 7, 8}"
  shows "get_season m = 4"
  using assms by (simp add: get_season_def)

theorem get_season_else_branch_witness:
  "(13::int) \<notin> {12, 1, 2} \<and> (13::int) \<notin> {3, 4, 5} \<and> (13::int) \<notin> {6, 7, 8}
    \<and> get_season 13 = 4"
  using get_season_else_branch [of 13] by simp

subsection \<open>Wind speed\<close>

text \<open>
  C2: on every row whose two components are present the wind speed is
  \<open>sqrt (u\<^sup>2 + v\<^sup>2)\<close>, which is not negative, and the wind speed of (0, 0) is 0.
\<close>

theorem wind_speed_formula:
  assumes "length u = length v" and "i < length u"
    and "u ! i = Some a" and "v ! i = Some b"
  shows "calculate_wind_speed u v ! i = Some (sqrt (a ^ 2 + b ^ 2))
    \<and> 0 \<le> sqrt (a ^ 2 + b ^ 2)
    \<and> calculate_wind_speed [Some 0] [Some 0] = [Some 0]"
proof -
  have "calculate_wind_speed u v ! i = Some (sqrt (a ^ 2 + b ^ 2))"
    using assms by (simp add: calculate_wind_speed_nth)
  moreover have "calculate_wind_speed [Some 0] [Some 0] = [Some 0]"
    by (simp add: calculate_wind_speed_def series_sqrt_def series_add_def series_pow2_def)
  ultimately show ?thesis by simp
qed

theorem wind_speed_formula_witness:
  "calculate_wind_speed [Some 3, Some 0] [Some 4, Some 0] ! 0 = Some 5"
proof -
  have "calculate_wind_speed [Some 3, Some 0] [Some 4, Some 0] ! 0
      = Some (sqrt ((3::real) ^ 2 + 4 ^ 2))"
    using wind_speed_formula [of "[Some 3, Some 0]" "[Some 4, Some 0]" 0 3 4] by simp
  moreover have "(3::real) ^ 2 + 4 ^ 2 = 5 ^ 2" by simp
  ultimately show ?thesis by (simp only: real_sqrt_abs abs_numeral)
qed

subsection \<open>Cleaning\<close>

text \<open>
  C9: the cleaner is idempotent: dropping the incomplete rows of an already cleaned table
  changes nothing.
\<close>

theorem dropna_idempotent: "dropna (dropna df) = dropna df"
  by (simp add: dropna_def)

text \<open>
  The claim C1 as stated fails: a record whose timestamp does not parse gets a NaT index
  entry, and \<open>dropna\<close> keeps it when its data columns are complete.
\<close>

theorem dropna_keeps_unparsed_timestamp:
  "load_era5_data parse_datetime
     [BERLIN_FILE \<mapsto> \<lparr>header = [''timestamp'', ''u10m'', ''v10m''],
        records = [\<lparr>timestamp_text = Some ''not a date'', u10m_cell = Some 3,
                     v10m_cell = Some 4, other_cells = []\<rparr>]\<rparr>] BERLIN_FILE
     = Inr [\<lparr>timestamp = None, u10m = Some 3, v10m = Some 4, others = []\<rparr>]
   \<and> dropna [\<lparr>timestamp = None, u10m = Some 3, v10m = Some 4, others = []\<rparr>]
     = [\<lparr>timestamp = None, u10m = Some 3, v10m = Some 4, others = []\<rparr>]"
  by (simp add: load_era5_data_def read_csv_def set_index_def to_datetime_coerce_def
      parse_datetime_def sort_index_def dropna_def complete_def)

text \<open>
  C1 (amended): after the cleaner every remaining row has a value in every data column;
  the rows kept are exactly the rows of the input with no missing data column, whatever
  their index entry; and the row count drops by exactly the number of rows with a missing
  data column.
\<close>

theorem dropna_removes_incomplete_rows:
  "list_all complete (dropna df)
    \<and> set (dropna df) = {r \<in> set df. complete r}
    \<and> length (dropna df) + length (filter (\<lambda>r. \<not> complete r) df) = length df"
proof -
  have "list_all complete (dropna df)"
    by (simp add: dropna_def list_all_iff)
  moreover have "set (dropna df) = {r \<in> set df. complete r}"
    by (simp add: dropna_def)
  moreover have "length (dropna df) + length (filter (\<lambda>r. \<not> complete r) df) = length df"
    unfolding dropna_def by (rule sum_length_filter_compl)
  ultimately show ?thesis by simp
qed

subsection \<open>Loading\<close>

text \<open>
  C8: loading fails at once with \<open>FileNotFoundError\<close> when there is no file at the path
  and with \<open>KeyError\<close> when the header has no timestamp column; otherwise it returns a
  table that holds one row per record, and a record whose timestamp does not parse is in
  it with a NaT index entry: nothing is raised for it.
\<close>

theorem load_era5_data_errors:
  "(fs p = None \<longrightarrow> load_era5_data parse fs p = Inl (FileNotFoundError p))
    \<and> (fs p = Some f \<and> ''timestamp'' \<notin> set (header f) \<longrightarrow>
         load_era5_data parse fs p = Inl (KeyError ''timestamp''))
    \<and> (fs p = Some f \<and> ''timestamp'' \<in> set (header f) \<longrightarrow>
         (\<exists>df. load_era5_data parse fs p = Inr df
            \<and> mset df = mset (map (set_index parse) (records f))
            \<and> (\<forall>c \<in> set (records f). to_datetime_coerce parse (timestamp_text c) = None \<longrightarrow>
                  set_index parse c \<in> set df \<and> timestamp (set_index parse c) = None)))"
proof (intro conjI impI)
  assume "fs p = None"
  then show "load_era5_data parse fs p = Inl (FileNotFoundError p)"
    by (simp add: load_era5_data_def read_csv_def)
next
  assume "fs p = Some f \<and> ''timestamp'' \<notin> set (header f)"
  then show "load_era5_data parse fs p = Inl (KeyError ''timestamp'')"
    by (simp add: load_era5_data_def read_csv_def)
next
  assume a: "fs p = Some f \<and> ''timestamp'' \<in> set (header f)"
  let ?df = "sort_index (map (set_index parse) (records f))"
  have "load_era5_data parse fs p = Inr ?df"
    using a by (simp add: load_era5_data_def read_csv_def)
  moreover have "mset ?df = mset (map (set_index parse) (records f))"
    by (rule mset_sort_index)
  moreover have "\<forall>c \<in> set (records f). to_datetime_coerce parse (timestamp_text c) = None \<longrightarrow>
      set_index parse c \<in> set ?df \<and> timestamp (set_index parse c) = None"
    by (auto simp add: set_sort_index set_index_def intro!: rev_image_eqI)
  ultimately show "\<exists>df. load_era5_data parse fs p = Inr df
      \<and> mset df = mset (map (set_index parse) (records f))
      \<and> (\<forall>c \<in> set (records f). to_datetime_coerce parse (timestamp_text c) = None \<longrightarrow>
            set_index parse c \<in> set df \<and> timestamp (set_index parse c) = None)"
    by blast
qed

theorem load_era5_data_errors_witness:
  "load_era5_data parse_datetime Map.empty BERLIN_FILE = Inl (FileNotFoundError BERLIN_FILE)
    \<and> load_era5_data parse_datetime
        [BERLIN_FILE \<mapsto> \<lparr>header = [''time'', ''u10m'', ''v10m''], records = []\<rparr>] BERLIN_FILE
      = Inl (KeyError ''timestamp'')
    \<and> (\<exists>df. load_era5_data parse_datetime
          [BERLIN_FILE \<mapsto> \<lparr>header = [''timestamp'', ''u10m'', ''v10m''],
             records = [\<lparr>timestamp_text = Some ''not a date'', u10m_cell = Some 1,
                          v10m_cell = Some 2, other_cells = []\<rparr>]\<rparr>] BERLIN_FILE = Inr df
        \<and> \<lparr>timestamp = None, u10m = Some 1, v10m = Some 2, others = []\<rparr> \<in> set df)"
proof -
  let ?bad = "\<lparr>timestamp_text = Some ''not a date'', u10m_cell = Some 1,
                v10m_cell = Some 2, other_cells = []\<rparr>"
  let ?f1 = "\<lparr>header = [''time'', ''u10m'', ''v10m''], records = []\<rparr>"
  let ?f2 = "\<lparr>header = [''timestamp'', ''u10m'', ''v10m''], records = [?bad]\<rparr>"
  have unparsed: "to_datetime_coerce parse_datetime (timestamp_text ?bad) = None"
    by (simp add: to_datetime_coerce_def parse_datetime_def)
  have shape: "set_index parse_datetime ?bad
      = \<lparr>timestamp = None, u10m = Some 1, v10m = Some 2, others = []\<rparr>"
    using unparsed by (simp add: set_index_def)
  have "load_era5_data parse_datetime Map.empty BERLIN_FILE
      = Inl (FileNotFoundError BERLIN_FILE)"
    using load_era5_data_errors [where fs = Map.empty and p = BERLIN_FILE and parse = parse_datetime] by simp
  moreover have "load_era5_data parse_datetime [BERLIN_FILE \<mapsto> ?f1] BERLIN_FILE
      = Inl (KeyError ''timestamp'')"
    using load_era5_data_errors [where fs = "[BERLIN_FILE \<mapsto> ?f1]" and p = BERLIN_FILE
        and f = ?f1 and parse = parse_datetime]
    by simp
  moreover have "\<exists>df. load_era5_data parse_datetime [BERLIN_FILE \<mapsto> ?f2] BERLIN_FILE = Inr df
      \<and> \<lparr>timestamp = None, u10m = Some 1, v10m = Some 2, others = []\<rparr> \<in> set df"
    using load_era5_data_errors [where fs = "[BERLIN_FILE \<mapsto> ?f2]" and p = BERLIN_FILE
        and f = ?f2 and parse = parse_datetime]
      unparsed shape by auto
  ultimately show ?thesis by blast
qed

subsection \<open>Aggregates\<close>



subsection \<open>Daily means\<close>

text \<open>
  The claim C6 as stated fails: the table has rows on two calendar days, and the daily
  table has a third row, for the day between them, on which there is no observation.
\<close>

theorem daily_table_has_gap_day:
  "map day_ordinal (daily_table gap_table) = [738886, 738887, 738888]
    \<and> table_days gap_table = [738886, 738888]"
proof -
  have "map day_ordinal (daily_table gap_table) = [738886, 738887, 738888]"
    by (simp add: daily_table_gap)
  then show ?thesis
    by (simp add: table_days_gap)
qed

text \<open>
  C6 (amended): the daily resample has exactly one row for every calendar day from the
  first to the last day on which the table has a row, so every day with observations has
  its row; each row holds the per-day mean of every numeric column over the rows whose
  timestamp falls on that day; and a day in that span with no observation has a row too,
  with a missing value in every column.
\<close>

theorem daily_resample_rows:
  "map day_ordinal (resample_D_mean rows) =
      (if observed_days rows = [] then []
       else [Min (set (observed_days rows))..Max (set (observed_days rows))])
    \<and> distinct (map day_ordinal (resample_D_mean rows))
    \<and> set (observed_days rows) \<subseteq> set (map day_ordinal (resample_D_mean rows))
    \<and> (\<forall>e \<in> set (resample_D_mean rows).
          e = daily_mean (n_others rows) (day_ordinal e)
                (filter (\<lambda>r. row_day r = day_ordinal e)
                   (filter (\<lambda>r. timestamp r \<noteq> None) rows))
          \<and> (day_ordinal e \<notin> set (observed_days rows) \<longrightarrow> all_missing e))"
  using resample_D_mean_days [of rows] distinct_resample_days [of rows]
    observed_days_covered [of rows] resample_D_mean_rows [of _ rows]
    resample_D_mean_gap [of _ rows]
  by blast

theorem daily_resample_rows_witness:
  "map day_ordinal (daily_table gap_table) = [738886, 738887, 738888]
    \<and> all_missing (daily_table gap_table ! 1)
    \<and> wind_speed_mean (daily_table gap_table ! 0) = Some 5"
proof -
  let ?rows = "assign_columns gap_table (wind_speed_column gap_table) (season_column gap_table)"
  let ?e = "daily_table gap_table ! 1"
  have tbl: "resample_D_mean ?rows = daily_table gap_table"
    by (simp add: daily_table_def)
  have days: "observed_days ?rows = [738886, 738888]"
    using table_days_gap by (simp add: table_days_def)
  have mem: "?e \<in> set (resample_D_mean ?rows)"
    by (simp add: tbl daily_table_gap)
  have gap: "day_ordinal ?e \<notin> set (observed_days ?rows)"
    by (simp add: days daily_table_gap)
  have "all_missing ?e"
    using daily_resample_rows [of ?rows] mem gap by blast
  then show ?thesis
    by (simp add: daily_table_gap)
qed

subsection \<open>Extreme days\<close>

text \<open>
  The claim C5 as stated fails: the table has rows on two distinct days, and the ranking
  has three entries, the third being the day between them with a missing mean.
\<close>

theorem extreme_days_counts_gap_day:
  "length (extreme_days stable_descending gap_table) = 3
    \<and> length (remdups (table_days gap_table)) = 2"
proof -
  have "length (extreme_days stable_descending gap_table) = min 5 (length (daily_wind_speed gap_table))"
    unfolding extreme_days_def by (rule length_nlargest [OF descending_sort_stable])
  then have "length (extreme_days stable_descending gap_table) = 3"
    by (simp add: daily_wind_speed_def daily_table_gap)
  then show ?thesis
    by (simp add: table_days_gap)
qed

text \<open>
  C5 (amended): for every sorting routine of the short path that sorts in descending
  order, the ranking has min(5, number of rows of the daily table) entries, and the daily
  table has a row for every calendar day from the first to the last observed one. The
  ranking is the head of a rearrangement of all daily wind speeds in which the days with a
  mean come first, in non-increasing order of the mean, and the days without one follow:
  the listed means are the largest, and a day with a missing mean is listed only when
  fewer than five days have a mean. When the daily table has more than five rows, days
  with equal means keep the order they have in the daily table.
\<close>

theorem extreme_days_ranking:
  assumes "descending_sort sorter"
  shows "length (extreme_days sorter df) = min 5 (length (daily_table df))
    \<and> sorted_wrt ranks_before (extreme_days sorter df)
    \<and> (\<exists>rest. mset (extreme_days sorter df @ rest) = mset (daily_wind_speed df)
          \<and> sorted_wrt ranks_before (extreme_days sorter df @ rest))
    \<and> (5 \<le> length (filter (\<lambda>e. snd e \<noteq> None) (daily_wind_speed df)) \<longrightarrow>
          list_all (\<lambda>e. snd e \<noteq> None) (extreme_days sorter df))
    \<and> (5 < length (daily_table df) \<longrightarrow>
          prefix (filter (\<lambda>e. snd e = Some w) (extreme_days sorter df))
            (filter (\<lambda>e. snd e = Some w) (daily_wind_speed df)))"
proof -
  have "length (extreme_days sorter df) = min 5 (length (daily_wind_speed df))"
    unfolding extreme_days_def using assms by (rule length_nlargest)
  then have len: "length (extreme_days sorter df) = min 5 (length (daily_table df))"
    by (simp add: daily_wind_speed_def)
  have ord: "sorted_wrt ranks_before (extreme_days sorter df)"
    unfolding extreme_days_def using assms by (rule sorted_wrt_nlargest)
  have rest: "\<exists>rest. mset (extreme_days sorter df @ rest) = mset (daily_wind_speed df)
      \<and> sorted_wrt ranks_before (extreme_days sorter df @ rest)"
    unfolding extreme_days_def using assms by (rule nlargest_rest)
  have valued: "list_all (\<lambda>e. snd e \<noteq> None) (extreme_days sorter df)"
    if "5 \<le> length (filter (\<lambda>e. snd e \<noteq> None) (daily_wind_speed df))"
    unfolding extreme_days_def using assms that by (rule nlargest_valued)
  have ties: "prefix (filter (\<lambda>e. snd e = Some w) (extreme_days sorter df))
      (filter (\<lambda>e. snd e = Some w) (daily_wind_speed df))"
    if "5 < length (daily_table df)"
  proof -
    have "5 < length (daily_wind_speed df)"
      using that by (simp add: daily_wind_speed_def)
    then show ?thesis
      unfolding extreme_days_def by (rule nlargest_ties)
  qed
  show ?thesis
    using len ord rest valued ties by blast
qed

theorem extreme_days_ranking_witness:
  "descending_sort stable_descending
    \<and> 5 \<le> length (filter (\<lambda>e. snd e \<noteq> None) (daily_wind_speed week_table))
    \<and> 5 < length (daily_table week_table)
    \<and> extreme_days stable_descending week_table =
        [(738887, Some 5), (738889, Some 5), (738891, Some 5), (738886, Some 0), (738888, Some 0)]
    \<and> list_all (\<lambda>e. snd e \<noteq> None) (extreme_days stable_descending week_table)
    \<and> prefix (filter (\<lambda>e. snd e = Some 5) (extreme_days stable_descending week_table))
        (filter (\<lambda>e. snd e = Some 5) (daily_wind_speed week_table))"
proof -
  have five: "5 \<le> length (filter (\<lambda>e. snd e \<noteq> None) (daily_wind_speed week_table))"
    by (simp add: daily_wind_speed_def daily_table_week)
  have six: "5 < length (daily_table week_table)"
    by (simp add: daily_table_week)
  have valued: "list_all (\<lambda>e. snd e \<noteq> None) (extreme_days stable_descending week_table)"
    using extreme_days_ranking [OF descending_sort_stable, of week_table] five by blast
  have ties: "prefix (filter (\<lambda>e. snd e = Some 5) (extreme_days stable_descending week_table))
      (filter (\<lambda>e. snd e = Some 5) (daily_wind_speed week_table))"
    using extreme_days_ranking [OF descending_sort_stable, of week_table 5] six by blast
  show ?thesis
    using descending_sort_stable five six extreme_days_week valued ties by blast
qed

end
